theory Spec2Isabelle
  imports Complex_Main
begin

section \<open>Python values, exceptions and the outside world\<close>

text \<open>
  The values \<^verbatim>\<open>json.loads\<close> can produce. A float is a rational or one of the three
  non-finite values; a dict is the list of its items in iteration order (keys of a decoded
  JSON object are strings).
\<close>

datatype pyfloat = Finite rat | PosInf | NegInf | NaN

datatype pyval =
    PNone
  | PBool bool
  | PInt int
  | PFloat pyfloat
  | PStr string
  | PList "pyval list"
  | PDict "(string \<times> pyval) list"

text \<open>
  The exceptions the code raises or lets through. \<open>RuntimeError\<close> and
  \<open>AirflowException\<close> carry their message; \<open>KeyError\<close> carries the missing key.
  \<open>JSONDecodeError\<close> (a \<^verbatim>\<open>ValueError\<close>) and \<open>RequestException\<close> (an
  \<^verbatim>\<open>IOError\<close>) come from the libraries; neither is a \<^verbatim>\<open>RuntimeError\<close>. A library
  call may raise a \<open>RuntimeError\<close> as well: the \<^verbatim>\<open>RecursionError\<close> that
  \<^verbatim>\<open>json.loads\<close> raises on a deeply nested body is one.
\<close>

datatype exn =
    RuntimeError string
  | AirflowException string
  | KeyError string
  | TypeError
  | JSONDecodeError
  | RequestException string

text \<open>\<^verbatim>\<open>except RuntimeError\<close> catches exactly the first constructor.\<close>

fun is_RuntimeError :: "exn \<Rightarrow> bool" where
  "is_RuntimeError (RuntimeError m) = True"
| "is_RuntimeError e = False"

record response =
  status_code :: int
  content :: string

text \<open>
  Everything observable the client does, in the order it happens: HTTP requests (URL and
  headers), \<^verbatim>\<open>time.sleep\<close> (seconds) and \<^verbatim>\<open>print\<close>.
\<close>

datatype event =
    HttpGet string "(string \<times> string) list"
  | HttpPost string "(string \<times> string) list"
  | Sleep int
  | Print string

type_synonym world = "event list"

fun is_request :: "event \<Rightarrow> bool" where
  "is_request (HttpGet u h) = True"
| "is_request (HttpPost u h) = True"
| "is_request e = False"

fun is_post :: "event \<Rightarrow> bool" where
  "is_post (HttpPost u h) = True"
| "is_post e = False"

definition nreq :: "world \<Rightarrow> nat" where
  "nreq w = length (filter is_request w)"

text \<open>
  What lies outside the repository, as parameters: the remote service behind
  \<^verbatim>\<open>requests.get\<close> and \<^verbatim>\<open>requests.post\<close> (the outcome of a request may depend on how
  many requests were issued before it, so any sequence of answers can be described; a call
  may also raise), \<^verbatim>\<open>json.loads\<close>, and Python's \<^verbatim>\<open>repr\<close> of floats, lists and dicts.
\<close>

record env =
  requests_get :: "nat \<Rightarrow> string \<Rightarrow> (string \<times> string) list \<Rightarrow> exn + response"
  requests_post :: "nat \<Rightarrow> string \<Rightarrow> (string \<times> string) list \<Rightarrow> exn + response"
  json_loads :: "string \<Rightarrow> exn + pyval"
  py_repr :: "pyval \<Rightarrow> string"

subsection \<open>Formatting and item access\<close>

fun str_nat :: "nat \<Rightarrow> string" where
  "str_nat n =
     (if n < 10 then [''0123456789'' ! n]
      else str_nat (n div 10) @ [''0123456789'' ! (n mod 10)])"

declare str_nat.simps [simp del]

definition str_int :: "int \<Rightarrow> string" where
  "str_int i = (if i < 0 then ''-'' @ str_nat (nat (- i)) else str_nat (nat i))"

text \<open>
  \<^verbatim>\<open>'%s' % v\<close> and \<^verbatim>\<open>'{}'.format(v)\<close> for a value that is not a tuple: Python's
  \<^verbatim>\<open>str(v)\<close>.
\<close>

fun py_str :: "env \<Rightarrow> pyval \<Rightarrow> string" where
  "py_str E PNone = ''None''"
| "py_str E (PBool b) = (if b then ''True'' else ''False'')"
| "py_str E (PInt i) = str_int i"
| "py_str E (PStr s) = s"
| "py_str E v = py_repr E v"

text \<open>\<^verbatim>\<open>v[k]\<close> for a string key \<open>k\<close>: only a dict can be indexed by a string.\<close>

fun getitem :: "pyval \<Rightarrow> string \<Rightarrow> exn + pyval" where
  "getitem (PDict kvs) k = (case map_of kvs k of Some v \<Rightarrow> Inr v | None \<Rightarrow> Inl (KeyError k))"
| "getitem v k = Inl TypeError"

text \<open>
  \<^verbatim>\<open>for d in v\<close>: a list yields its elements, a dict its keys, a string its characters;
  nothing else is iterable.
\<close>

fun py_iter :: "pyval \<Rightarrow> exn + pyval list" where
  "py_iter (PList xs) = Inr xs"
| "py_iter (PDict kvs) = Inr (map (\<lambda>kv. PStr (fst kv)) kvs)"
| "py_iter (PStr s) = Inr (map (\<lambda>c. PStr [c]) s)"
| "py_iter v = Inl TypeError"

section \<open>RunStatus\<close>

definition queued :: int where "queued = 1"
definition dequeued :: int where "dequeued = 2"
definition running :: int where "running = 3"
definition success :: int where "success = 10"
definition error :: int where "error = 20"
definition cancelled :: int where "cancelled = 30"

definition LOOKUP :: "(int \<times> string) list" where
  "LOOKUP =
     [(queued, ''Queued''),
      (dequeued, ''Queued''),
      (running, ''Running''),
      (success, ''Success''),
      (error, ''Error''),
      (cancelled, ''Cancelled'')]"

text \<open>\<^verbatim>\<open>LOOKUP.get(k, 'Unknown')\<close> for an integer key.\<close>

definition LOOKUP_get :: "int \<Rightarrow> string" where
  "LOOKUP_get k = (case map_of LOOKUP k of Some s \<Rightarrow> s | None \<Rightarrow> ''Unknown'')"

text \<open>
  \<^verbatim>\<open>RunStatus.lookup(status)\<close>. The dict is keyed by integers; a bool or a float that
  equals a key finds it (\<^verbatim>\<open>True == 1\<close>, \<^verbatim>\<open>10.0 == 10\<close>), any other hashable value
  finds nothing, and a list or dict is unhashable, so \<^verbatim>\<open>dict.get\<close> raises.
\<close>

fun lookup :: "pyval \<Rightarrow> exn + string" where
  "lookup (PInt n) = Inr (LOOKUP_get n)"
| "lookup (PBool b) = Inr (LOOKUP_get (if b then 1 else 0))"
| "lookup (PFloat (Finite q)) =
     Inr (if q = of_int \<lfloor>q\<rfloor> then LOOKUP_get \<lfloor>q\<rfloor> else ''Unknown'')"
| "lookup (PFloat f) = Inr ''Unknown''"
| "lookup PNone = Inr ''Unknown''"
| "lookup (PStr s) = Inr ''Unknown''"
| "lookup (PList xs) = Inl TypeError"
| "lookup (PDict kvs) = Inl TypeError"

section \<open>The Sinter API client\<close>

record sinter =
  account_id :: pyval
  api_token :: pyval
  api_base :: string

text \<open>\<^verbatim>\<open>Sinter.__init__\<close>.\<close>

definition Sinter :: "pyval \<Rightarrow> pyval \<Rightarrow> sinter" where
  "Sinter account api_tok =
     \<lparr>account_id = account, api_token = api_tok,
      api_base = ''https://cloud.getdbt.com/api/v1''\<rparr>"

text \<open>
  A call of \<^verbatim>\<open>requests.get\<close> or \<^verbatim>\<open>requests.post\<close>: the request is recorded, and its
  outcome is the service's answer to request number \<open>nreq w\<close>.
\<close>

definition http_get :: "env \<Rightarrow> string \<Rightarrow> (string \<times> string) list \<Rightarrow> world \<Rightarrow> (exn + response) \<times> world" where
  "http_get E url headers w = (requests_get E (nreq w) url headers, w @ [HttpGet url headers])"

definition http_post :: "env \<Rightarrow> string \<Rightarrow> (string \<times> string) list \<Rightarrow> world \<Rightarrow> (exn + response) \<times> world" where
  "http_post E url headers w = (requests_post E (nreq w) url headers, w @ [HttpPost url headers])"

text \<open>\<^verbatim>\<open>Sinter._get\<close> and \<^verbatim>\<open>Sinter._post\<close> (a name cannot start with an underscore here).\<close>

definition sinter_get :: "env \<Rightarrow> sinter \<Rightarrow> string \<Rightarrow> world \<Rightarrow> (exn + pyval) \<times> world" where
  "sinter_get E self url_suffix w =
     (let url = api_base self @ url_suffix;
          headers = [(''Authorization'', ''Token '' @ py_str E (api_token self))]
      in case http_get E url headers w of
           (Inl e, w') \<Rightarrow> (Inl e, w')
         | (Inr resp, w') \<Rightarrow>
             if status_code resp = 200 then (json_loads E (content resp), w')
             else (Inl (RuntimeError (content resp)), w'))"

definition sinter_post :: "env \<Rightarrow> sinter \<Rightarrow> string \<Rightarrow> world \<Rightarrow> (exn + pyval) \<times> world" where
  "sinter_post E self url_suffix w =
     (let url = api_base self @ url_suffix;
          headers = [(''Authorization'', ''token '' @ py_str E (api_token self))]
      in case http_post E url headers w of
           (Inl e, w') \<Rightarrow> (Inl e, w')
         | (Inr resp, w') \<Rightarrow>
             if status_code resp = 201 then (json_loads E (content resp), w')
             else (Inl (RuntimeError (content resp)), w'))"

definition list_projects :: "env \<Rightarrow> sinter \<Rightarrow> world \<Rightarrow> (exn + pyval) \<times> world" where
  "list_projects E self w =
     (case sinter_get E self (''/accounts/'' @ py_str E (account_id self) @ ''/projects/'') w of
        (Inl e, w') \<Rightarrow> (Inl e, w')
      | (Inr body, w') \<Rightarrow> (getitem body ''data'', w'))"

definition get_project :: "env \<Rightarrow> sinter \<Rightarrow> pyval \<Rightarrow> world \<Rightarrow> (exn + pyval) \<times> world" where
  "get_project E self project_id w =
     (case sinter_get E self
             (''/accounts/'' @ py_str E (account_id self) @ ''/projects/'' @ py_str E project_id @ ''/'') w of
        (Inl e, w') \<Rightarrow> (Inl e, w')
      | (Inr body, w') \<Rightarrow> (getitem body ''data'', w'))"

definition list_job_definitions :: "env \<Rightarrow> sinter \<Rightarrow> pyval \<Rightarrow> world \<Rightarrow> (exn + pyval) \<times> world" where
  "list_job_definitions E self project_id w =
     sinter_get E self
       (''/accounts/'' @ py_str E (account_id self) @ ''/projects/'' @ py_str E project_id
          @ ''/definitions/'') w"

definition get_job_run :: "env \<Rightarrow> sinter \<Rightarrow> pyval \<Rightarrow> pyval \<Rightarrow> world \<Rightarrow> (exn + pyval) \<times> world" where
  "get_job_run E self project_id job_id w =
     sinter_get E self
       (''/accounts/'' @ py_str E (account_id self) @ ''/projects/'' @ py_str E project_id
          @ ''/runs/'' @ py_str E job_id @ ''/'') w"

definition trigger_job_run :: "env \<Rightarrow> sinter \<Rightarrow> pyval \<Rightarrow> pyval \<Rightarrow> world \<Rightarrow> (exn + pyval) \<times> world" where
  "trigger_job_run E self project_id definition_id w =
     sinter_post E self
       (''/accounts/'' @ py_str E (account_id self) @ ''/projects/'' @ py_str E project_id
          @ ''/definitions/'' @ py_str E definition_id @ ''/runs/'') w"

subsection \<open>Bounded retry\<close>

text \<open>
  The body of \<^verbatim>\<open>for i in range(max_tries)\<close> with the iterations left as the recursion
  argument; when none is left the loop falls through to the final \<^verbatim>\<open>raise\<close>. Only
  a \<^verbatim>\<open>RuntimeError\<close> is caught: any other exception leaves the function at once.
\<close>

fun try_loop :: "env \<Rightarrow> sinter \<Rightarrow> pyval \<Rightarrow> pyval \<Rightarrow> nat \<Rightarrow> world \<Rightarrow> (exn + pyval) \<times> world" where
  "try_loop E self project_id job_id 0 w =
     (Inl (RuntimeError (''Too many failures ('' @ py_str E job_id
                           @ '') while querying for job status'')), w)"
| "try_loop E self project_id job_id (Suc n) w =
     (case get_job_run E self project_id job_id w of
        (Inr job, w') \<Rightarrow> (Inr job, w')
      | (Inl e, w') \<Rightarrow>
          if is_RuntimeError e then
            try_loop E self project_id job_id n
              (w' @ [Print (''Encountered a runtime error while fetching status for ''
                             @ py_str E job_id),
                     Sleep 10])
          else (Inl e, w'))"

text \<open>\<^verbatim>\<open>range(max_tries)\<close> has \<open>nat max_tries\<close> elements (none when \<open>max_tries \<le> 0\<close>).\<close>

definition try_get_job_run :: "env \<Rightarrow> sinter \<Rightarrow> pyval \<Rightarrow> pyval \<Rightarrow> int \<Rightarrow> world \<Rightarrow> (exn + pyval) \<times> world" where
  "try_get_job_run E self project_id job_id max_tries w =
     try_loop E self project_id job_id (nat max_tries) w"

subsection \<open>Polling\<close>

text \<open>\<^verbatim>\<open>RunStatus.lookup(job['status'])\<close>, as both callers write it.\<close>

definition job_status_name :: "pyval \<Rightarrow> exn + string" where
  "job_status_name job =
     (case getitem job ''status'' of Inl e \<Rightarrow> Inl e | Inr st \<Rightarrow> lookup st)"

definition query_sleep :: int where
  "query_sleep = 30"

text \<open>
  \<^verbatim>\<open>while True\<close> has no bound: \<open>None\<close> is the run that never returns. The default
  \<^verbatim>\<open>max_tries=3\<close> is written out at the call.
\<close>

partial_function (option) block_until_complete ::
  "env \<Rightarrow> sinter \<Rightarrow> pyval \<Rightarrow> pyval \<Rightarrow> world \<Rightarrow> ((exn + pyval) \<times> world) option" where
  "block_until_complete E self project_id job_id w =
     (case try_get_job_run E self project_id job_id 3 w of
        (Inl e, w1) \<Rightarrow> Some (Inl e, w1)
      | (Inr job, w1) \<Rightarrow>
          (case job_status_name job of
             Inl e \<Rightarrow> Some (Inl e, w1)
           | Inr status_name \<Rightarrow>
               (let w2 = w1 @ [Print (''JOB: '' @ py_str E job_id @ '', STATUS: '' @ status_name)]
                in if status_name \<in> set [''Success'', ''Error'', ''Cancelled'']
                   then Some (Inr job, w2)
                   else block_until_complete E self project_id job_id (w2 @ [Sleep query_sleep]))))"

declare block_until_complete.simps [code]

subsection \<open>run\_job\<close>

text \<open>
  The comprehension \<^verbatim>\<open>[d for d in definitions if d['name'] == job_name]\<close> over the
  elements the iteration yields: the first element whose \<^verbatim>\<open>d['name']\<close> raises ends it.
  \<open>job_name\<close> is a string, so only an equal string compares equal.
\<close>

fun filter_by_name :: "pyval list \<Rightarrow> string \<Rightarrow> exn + pyval list" where
  "filter_by_name [] job_name = Inr []"
| "filter_by_name (d # ds) job_name =
     (case getitem d ''name'' of
        Inl e \<Rightarrow> Inl e
      | Inr v \<Rightarrow>
          (case filter_by_name ds job_name of
             Inl e \<Rightarrow> Inl e
           | Inr r \<Rightarrow> Inr (if v = PStr job_name then d # r else r)))"

definition run_job :: "env \<Rightarrow> sinter \<Rightarrow> pyval \<Rightarrow> string \<Rightarrow> world \<Rightarrow> ((exn + pyval) \<times> world) option" where
  "run_job E self project_id job_name w =
     (case list_job_definitions E self project_id w of
        (Inl e, w1) \<Rightarrow> Some (Inl e, w1)
      | (Inr definitions, w1) \<Rightarrow>
     (case py_iter definitions of
        Inl e \<Rightarrow> Some (Inl e, w1)
      | Inr ds \<Rightarrow>
     (case filter_by_name ds job_name of
        Inl e \<Rightarrow> Some (Inl e, w1)
      | Inr job_defs \<Rightarrow>
          if length job_defs \<noteq> 1 then
            Some (Inl (AirflowException
                        (py_str E (PInt (int (length job_defs))) @ '' jobs found for '' @ job_name)),
                  w1)
          else
     (let job_def = job_defs ! 0 in
      case getitem job_def ''id'' of
        Inl e \<Rightarrow> Some (Inl e, w1)
      | Inr definition_id \<Rightarrow>
     (case trigger_job_run E self project_id definition_id w1 of
        (Inl e, w2) \<Rightarrow> Some (Inl e, w2)
      | (Inr trigger_resp, w2) \<Rightarrow>
     (case getitem trigger_resp ''id'' of
        Inl e \<Rightarrow> Some (Inl e, w2)
      | Inr job_id \<Rightarrow>
     (case block_until_complete E self project_id job_id w2 of
        None \<Rightarrow> None
      | Some (Inl e, w3) \<Rightarrow> Some (Inl e, w3)
      | Some (Inr job, w3) \<Rightarrow>
     (case job_status_name job of
        Inl e \<Rightarrow> Some (Inl e, w3)
      | Inr status_name \<Rightarrow>
          if status_name = ''Success'' then Some (Inr job, w3)
          else Some (Inl (AirflowException (''Run failed with status: '' @ status_name)), w3)))))))))"

section \<open>Vocabulary of the statements\<close>

text \<open>The full URLs and the header lists the client sends, named for the statements below.\<close>

definition auth_get :: "env \<Rightarrow> sinter \<Rightarrow> (string \<times> string) list" where
  "auth_get E self = [(''Authorization'', ''Token '' @ py_str E (api_token self))]"

definition auth_post :: "env \<Rightarrow> sinter \<Rightarrow> (string \<times> string) list" where
  "auth_post E self = [(''Authorization'', ''token '' @ py_str E (api_token self))]"

definition definitions_url :: "env \<Rightarrow> sinter \<Rightarrow> pyval \<Rightarrow> string" where
  "definitions_url E self project_id =
     api_base self @ ''/accounts/'' @ py_str E (account_id self) @ ''/projects/''
       @ py_str E project_id @ ''/definitions/''"

definition run_url :: "env \<Rightarrow> sinter \<Rightarrow> pyval \<Rightarrow> pyval \<Rightarrow> string" where
  "run_url E self project_id job_id =
     api_base self @ ''/accounts/'' @ py_str E (account_id self) @ ''/projects/''
       @ py_str E project_id @ ''/runs/'' @ py_str E job_id @ ''/''"

definition trigger_url :: "env \<Rightarrow> sinter \<Rightarrow> pyval \<Rightarrow> pyval \<Rightarrow> string" where
  "trigger_url E self project_id definition_id =
     api_base self @ ''/accounts/'' @ py_str E (account_id self) @ ''/projects/''
       @ py_str E project_id @ ''/definitions/'' @ py_str E definition_id @ ''/runs/''"

text \<open>
  What one failed and retried attempt of \<open>try_get_job_run\<close> leaves behind, and the world
  after \<open>k\<close> such attempts in a row.
\<close>

definition retry_events :: "env \<Rightarrow> sinter \<Rightarrow> pyval \<Rightarrow> pyval \<Rightarrow> event list" where
  "retry_events E self project_id job_id =
     [HttpGet (run_url E self project_id job_id) (auth_get E self),
      Print (''Encountered a runtime error while fetching status for '' @ py_str E job_id),
      Sleep 10]"

definition after_failures :: "env \<Rightarrow> sinter \<Rightarrow> pyval \<Rightarrow> pyval \<Rightarrow> world \<Rightarrow> nat \<Rightarrow> world" where
  "after_failures E self project_id job_id w k =
     w @ concat (replicate k (retry_events E self project_id job_id))"

text \<open>The line \<open>block_until_complete\<close> prints in each iteration.\<close>

definition status_line :: "env \<Rightarrow> pyval \<Rightarrow> string \<Rightarrow> event" where
  "status_line E job_id status_name =
     Print (''JOB: '' @ py_str E job_id @ '', STATUS: '' @ status_name)"

text \<open>A definition record matches a job name when it is a dict whose \<open>name\<close> is that string.\<close>

definition has_name :: "pyval \<Rightarrow> bool" where
  "has_name d = (case getitem d ''name'' of Inr v \<Rightarrow> True | Inl e \<Rightarrow> False)"

definition matches :: "string \<Rightarrow> pyval \<Rightarrow> bool" where
  "matches job_name d = (getitem d ''name'' = Inr (PStr job_name))"

text \<open>
  A sequence of polls that are all still pending: for each \<open>i < k\<close>, the fetch made in
  world \<open>ws i\<close> succeeds with a payload whose status name is none of Success, Error and
  Cancelled, and \<open>ws (Suc i)\<close> is the world of that fetch followed by the status line and
  a sleep of 30 seconds.
\<close>

definition pending_polls :: "env \<Rightarrow> sinter \<Rightarrow> pyval \<Rightarrow> pyval \<Rightarrow> (nat \<Rightarrow> world) \<Rightarrow> nat \<Rightarrow> bool" where
  "pending_polls E self project_id job_id ws k =
     (\<forall>i\<in>{0..<k}.
        case try_get_job_run E self project_id job_id 3 (ws i) of
          (Inl e, w0) \<Rightarrow> False
        | (Inr job0, w0) \<Rightarrow>
            (case job_status_name job0 of
               Inl e \<Rightarrow> False
             | Inr s0 \<Rightarrow>
                 s0 \<notin> {''Success'', ''Error'', ''Cancelled''}
                 \<and> ws (Suc i) = w0 @ [status_line E job_id s0, Sleep 30]))"

section \<open>A scripted service for concrete runs\<close>

text \<open>
  The bodies the scripted service sends, and their decoding as \<^verbatim>\<open>json.loads\<close> gives it.
\<close>

definition defs_body :: string where
  \<open>defs_body = ''[{"name": "nightly", "id": 7}, {"name": "hourly", "id": 8}]''\<close>

definition wrapped_defs_body :: string where
  \<open>wrapped_defs_body = ''{"data": [{"name": "nightly", "id": 7}]}''\<close>

definition run_body :: "int \<Rightarrow> string" where
  \<open>run_body st = ''{"id": 42, "status": '' @ str_int st @ ''}''\<close>

definition run_payload :: "int \<Rightarrow> pyval" where
  "run_payload st = PDict [(''id'', PInt 42), (''status'', PInt st)]"

definition nightly_def :: pyval where
  "nightly_def = PDict [(''name'', PStr ''nightly''), (''id'', PInt 7)]"

definition hourly_def :: pyval where
  "hourly_def = PDict [(''name'', PStr ''hourly''), (''id'', PInt 8)]"

definition demo_loads :: "string \<Rightarrow> exn + pyval" where
  "demo_loads s =
     (if s = defs_body then Inr (PList [nightly_def, hourly_def])
      else if s = wrapped_defs_body then Inr (PDict [(''data'', PList [nightly_def])])
      else if s = run_body 1 then Inr (run_payload 1)
      else if s = run_body 3 then Inr (run_payload 3)
      else if s = run_body 10 then Inr (run_payload 10)
      else if s = run_body 20 then Inr (run_payload 20)
      else Inl JSONDecodeError)"

text \<open>
  The service answers request number \<open>n\<close> with the \<open>n\<close>-th entry of a script, whatever the
  URL; past the end of the script the connection fails.
\<close>

definition scripted :: "(exn + response) list \<Rightarrow> env" where
  "scripted script =
     \<lparr>requests_get = (\<lambda>n url headers.
          if n < length script then script ! n else Inl (RequestException ''connection refused'')),
      requests_post = (\<lambda>n url headers.
          if n < length script then script ! n else Inl (RequestException ''connection refused'')),
      json_loads = demo_loads,
      py_repr = (\<lambda>v. ''?'')\<rparr>"

definition reply :: "int \<Rightarrow> string \<Rightarrow> exn + response" where
  "reply code body = Inr \<lparr>status_code = code, content = body\<rparr>"

definition demo_self :: sinter where
  "demo_self = Sinter (PInt 1) (PStr ''secret'')"

definition demo_get_headers :: "(string \<times> string) list" where
  "demo_get_headers = [(''Authorization'', ''Token secret'')]"

definition demo_post_headers :: "(string \<times> string) list" where
  "demo_post_headers = [(''Authorization'', ''token secret'')]"

definition demo_definitions_url :: string where
  "demo_definitions_url = ''https://cloud.getdbt.com/api/v1/accounts/1/projects/2/definitions/''"

definition demo_trigger_url :: string where
  "demo_trigger_url = ''https://cloud.getdbt.com/api/v1/accounts/1/projects/2/definitions/7/runs/''"

definition demo_run_url :: string where
  "demo_run_url = ''https://cloud.getdbt.com/api/v1/accounts/1/projects/2/runs/42/''"

text \<open>
  Scripts: a service that is busy three times, one that recovers, one whose first
  connection is dropped and which would answer the next request, and one that is busy
  twice and then drops the connection.
\<close>

definition busy_env :: env where
  "busy_env = scripted [reply 500 ''busy'', reply 500 ''busy'', reply 500 ''busy'']"

definition flaky_env :: env where
  "flaky_env = scripted [reply 500 ''busy'', reply 200 (run_body 3)]"

definition offline_env :: env where
  "offline_env =
     scripted [Inl (RequestException ''Connection aborted.''), reply 200 (run_body 10)]"

definition dropping_env :: env where
  "dropping_env =
     scripted [reply 500 ''busy'', reply 500 ''busy'',
               Inl (RequestException ''Connection aborted.'')]"

definition retry_line :: event where
  "retry_line = Print ''Encountered a runtime error while fetching status for 42''"

text \<open>
  More scripts: a missing resource, the definitions as a list, the definitions wrapped in
  an object, a run polled to success, and whole runs of \<open>run_job\<close> ending in success and
  in an error status.
\<close>

definition missing_env :: env where
  "missing_env = scripted [reply 404 ''not found'']"

definition defs_env :: env where
  "defs_env = scripted [reply 200 defs_body]"


definition polling_env :: env where
  "polling_env = scripted [reply 200 (run_body 1), reply 200 (run_body 3), reply 200 (run_body 10)]"

definition success_env :: env where
  "success_env =
     scripted [reply 200 defs_body, reply 201 (run_body 1), reply 200 (run_body 1),
               reply 500 ''busy'', reply 200 (run_body 3), reply 200 (run_body 10)]"

definition failure_env :: env where
  "failure_env =
     scripted [reply 200 defs_body, reply 201 (run_body 1), reply 200 (run_body 3),
               reply 200 (run_body 20)]"

definition success_worlds :: "nat \<Rightarrow> world" where
  "success_worlds i =
     take (if i = 0 then 2 else if i = 1 then 5 else 11)
       [HttpGet demo_definitions_url demo_get_headers, HttpPost demo_trigger_url demo_post_headers,
        HttpGet demo_run_url demo_get_headers, Print ''JOB: 42, STATUS: Queued'', Sleep 30,
        HttpGet demo_run_url demo_get_headers, retry_line, Sleep 10,
        HttpGet demo_run_url demo_get_headers, Print ''JOB: 42, STATUS: Running'', Sleep 30]"

definition failure_worlds :: "nat \<Rightarrow> world" where
  "failure_worlds i =
     take (if i = 0 then 2 else 5)
       [HttpGet demo_definitions_url demo_get_headers, HttpPost demo_trigger_url demo_post_headers,
        HttpGet demo_run_url demo_get_headers, Print ''JOB: 42, STATUS: Running'', Sleep 30]"

definition poll_worlds :: "nat \<Rightarrow> world" where
  "poll_worlds i =
     take (3 * i)
       [HttpGet demo_run_url demo_get_headers, Print ''JOB: 42, STATUS: Queued'', Sleep 30,
        HttpGet demo_run_url demo_get_headers, Print ''JOB: 42, STATUS: Running'', Sleep 30]"

section \<open>Requests and their outcomes\<close>

lemma nreq_simps [simp]:
  "nreq [] = 0"
  "nreq (w @ v) = nreq w + nreq v"
  "nreq (HttpGet u h # w) = Suc (nreq w)"
  "nreq (HttpPost u h # w) = Suc (nreq w)"
  "nreq (Sleep n # w) = nreq w"
  "nreq (Print s # w) = nreq w"
  by (simp_all add: nreq_def)

lemma sinter_get_world:
  "snd (sinter_get E self suffix w) = w @ [HttpGet (api_base self @ suffix) (auth_get E self)]"
  by (simp add: sinter_get_def http_get_def auth_get_def Let_def split: sum.splits)

lemma sinter_get_result:
  "fst (sinter_get E self suffix w) =
     (case requests_get E (nreq w) (api_base self @ suffix) (auth_get E self) of
        Inl e \<Rightarrow> Inl e
      | Inr r \<Rightarrow> if status_code r = 200 then json_loads E (content r)
                 else Inl (RuntimeError (content r)))"
  by (simp add: sinter_get_def http_get_def auth_get_def Let_def split: sum.splits)

lemma sinter_post_world:
  "snd (sinter_post E self suffix w) = w @ [HttpPost (api_base self @ suffix) (auth_post E self)]"
  by (simp add: sinter_post_def http_post_def auth_post_def Let_def split: sum.splits)

lemma sinter_post_result:
  "fst (sinter_post E self suffix w) =
     (case requests_post E (nreq w) (api_base self @ suffix) (auth_post E self) of
        Inl e \<Rightarrow> Inl e
      | Inr r \<Rightarrow> if status_code r = 201 then json_loads E (content r)
                 else Inl (RuntimeError (content r)))"
  by (simp add: sinter_post_def http_post_def auth_post_def Let_def split: sum.splits)

lemma get_job_run_world:
  "snd (get_job_run E self pid jid w) = w @ [HttpGet (run_url E self pid jid) (auth_get E self)]"
  by (simp add: get_job_run_def sinter_get_world run_url_def)

lemma get_job_run_eqI:
  "fst (get_job_run E self pid jid w) = r \<Longrightarrow>
   get_job_run E self pid jid w = (r, w @ [HttpGet (run_url E self pid jid) (auth_get E self)])"
  using get_job_run_world[of E self pid jid w] by (cases "get_job_run E self pid jid w") simp

section \<open>The retry loop\<close>

lemma after_failures_0: "after_failures E self pid jid w 0 = w"
  by (simp add: after_failures_def)

lemma after_failures_Suc:
  "after_failures E self pid jid w (Suc k) =
     after_failures E self pid jid (w @ retry_events E self pid jid) k"
  by (simp add: after_failures_def)

lemma after_failures_snoc:
  "after_failures E self pid jid w (Suc k) =
     after_failures E self pid jid w k @ retry_events E self pid jid"
proof -
  have "concat (replicate (Suc k) xs) = concat (replicate k xs) @ xs" for xs :: "event list"
    by (induction k) simp_all
  then show ?thesis by (simp add: after_failures_def)
qed

lemma nreq_after_failures:
  "nreq (after_failures E self pid jid w k) = nreq w + k"
  by (induction k arbitrary: w) (simp_all add: after_failures_0 after_failures_Suc retry_events_def)

lemma count_sleep_after_failures:
  "count_list (after_failures E self pid jid w k) (Sleep 10) = count_list w (Sleep 10) + k"
  by (induction k arbitrary: w) (simp_all add: after_failures_0 after_failures_Suc retry_events_def)

lemma last_after_failures:
  "0 < k \<Longrightarrow> last (after_failures E self pid jid w k) = Sleep 10"
  by (cases k) (simp_all add: after_failures_snoc retry_events_def)

text \<open>As long as the attempts end in a \<open>RuntimeError\<close>, the loop goes on to the next one.\<close>

lemma try_loop_general:
  assumes "\<forall>i<k. \<exists>m. fst (get_job_run E self pid jid (after_failures E self pid jid w i))
                        = Inl (RuntimeError m)"
  shows "try_loop E self pid jid (k + n) w =
         try_loop E self pid jid n (after_failures E self pid jid w k)"
  using assms
proof (induction k arbitrary: w)
  case 0
  then show ?case by (simp add: after_failures_0)
next
  case (Suc k)
  from Suc.prems obtain m where m: "fst (get_job_run E self pid jid w) = Inl (RuntimeError m)"
    using after_failures_0 by (metis zero_less_Suc)
  have step: "try_loop E self pid jid (Suc (k + n)) w =
      try_loop E self pid jid (k + n) (w @ retry_events E self pid jid)"
  proof -
    have "get_job_run E self pid jid w =
        (Inl (RuntimeError m), w @ [HttpGet (run_url E self pid jid) (auth_get E self)])"
      using m by (rule get_job_run_eqI)
    then show ?thesis by (simp add: retry_events_def)
  qed
  have "\<forall>i<k. \<exists>m. fst (get_job_run E self pid jid
          (after_failures E self pid jid (w @ retry_events E self pid jid) i)) = Inl (RuntimeError m)"
    using Suc.prems by (auto simp: after_failures_Suc[symmetric])
  from Suc.IH[OF this] step show ?case
    by (simp add: after_failures_Suc)
qed

lemma try_loop_exhausted:
  assumes "\<forall>i<k. \<exists>m. fst (get_job_run E self pid jid (after_failures E self pid jid w i))
                        = Inl (RuntimeError m)"
  shows "try_loop E self pid jid k w =
     (Inl (RuntimeError (''Too many failures ('' @ py_str E jid
                           @ '') while querying for job status'')),
      after_failures E self pid jid w k)"
  using try_loop_general[OF assms, of 0] by simp

lemma try_loop_stops:
  assumes "\<forall>i<k. \<exists>m. fst (get_job_run E self pid jid (after_failures E self pid jid w i))
                        = Inl (RuntimeError m)"
    and "k < n"
    and "fst (get_job_run E self pid jid (after_failures E self pid jid w k)) = r"
    and "case r of Inl e \<Rightarrow> \<not> is_RuntimeError e | Inr job \<Rightarrow> True"
  shows "try_loop E self pid jid n w =
     (r, after_failures E self pid jid w k @ [HttpGet (run_url E self pid jid) (auth_get E self)])"
proof -
  define j where "j = n - Suc k"
  have n: "n = k + Suc j"
    using assms(2) by (simp add: j_def)
  have g: "get_job_run E self pid jid (after_failures E self pid jid w k) =
      (r, after_failures E self pid jid w k @ [HttpGet (run_url E self pid jid) (auth_get E self)])"
    using assms(3) by (rule get_job_run_eqI)
  have "try_loop E self pid jid (Suc j) (after_failures E self pid jid w k) =
      (r, after_failures E self pid jid w k @ [HttpGet (run_url E self pid jid) (auth_get E self)])"
    using assms(4) g by (cases r) simp_all
  then show ?thesis
    unfolding n using try_loop_general[OF assms(1), of "Suc j"] by simp
qed

text \<open>The busy service fails all three attempts of the default bound.\<close>

lemma busy_env_fails:
  "\<forall>i<nat 3. \<exists>m. fst (get_job_run busy_env demo_self (PInt 2) (PInt 42)
                         (after_failures busy_env demo_self (PInt 2) (PInt 42) [] i))
                  = Inl (RuntimeError m)"
proof (intro allI impI)
  fix i :: nat
  assume "i < nat 3"
  then consider "i = 0" | "i = Suc 0" | "i = Suc (Suc 0)"
    by fastforce
  then show "\<exists>m. fst (get_job_run busy_env demo_self (PInt 2) (PInt 42)
                       (after_failures busy_env demo_self (PInt 2) (PInt 42) [] i))
                = Inl (RuntimeError m)"
  proof cases
    case 1
    have "fst (get_job_run busy_env demo_self (PInt 2) (PInt 42)
                (after_failures busy_env demo_self (PInt 2) (PInt 42) [] 0))
          = Inl (RuntimeError ''busy'')"
      by code_simp
    with 1 show ?thesis by blast
  next
    case 2
    have "fst (get_job_run busy_env demo_self (PInt 2) (PInt 42)
                (after_failures busy_env demo_self (PInt 2) (PInt 42) [] (Suc 0)))
          = Inl (RuntimeError ''busy'')"
      by code_simp
    with 2 show ?thesis by blast
  next
    case 3
    have "fst (get_job_run busy_env demo_self (PInt 2) (PInt 42)
                (after_failures busy_env demo_self (PInt 2) (PInt 42) [] (Suc (Suc 0))))
          = Inl (RuntimeError ''busy'')"
      by code_simp
    with 3 show ?thesis by blast
  qed
qed

lemma busy_env_world:
  "after_failures busy_env demo_self (PInt 2) (PInt 42) [] (nat 3) =
     [HttpGet demo_run_url demo_get_headers, retry_line, Sleep 10,
      HttpGet demo_run_url demo_get_headers, retry_line, Sleep 10,
      HttpGet demo_run_url demo_get_headers, retry_line, Sleep 10]"
  by code_simp

section \<open>Claims about the bounded retry\<close>

text \<open>
  C2, as amended. \<open>try_get_job_run\<close> raises its own error after exactly \<open>max_tries\<close>
  attempts in a row that ended in a \<open>RuntimeError\<close> (so after \<open>max_tries\<close> requests), and
  not before: when only \<open>k < max_tries\<close> attempts have failed that way and the next one
  succeeds, its result is returned without raising. An attempt that raises anything other
  than a \<open>RuntimeError\<close> is not retried: that exception leaves the function at once.
\<close>

theorem try_get_job_run_bounded_retry:
  assumes "\<forall>i<k. \<exists>m. fst (get_job_run E self project_id job_id
                          (after_failures E self project_id job_id w i)) = Inl (RuntimeError m)"
  shows "(k = nat max_tries \<longrightarrow>
            try_get_job_run E self project_id job_id max_tries w =
              (Inl (RuntimeError (''Too many failures ('' @ py_str E job_id
                                    @ '') while querying for job status'')),
               after_failures E self project_id job_id w k)
            \<and> nreq (after_failures E self project_id job_id w k) = nreq w + nat max_tries)
       \<and> (k < nat max_tries \<longrightarrow>
            (\<forall>job. fst (get_job_run E self project_id job_id
                          (after_failures E self project_id job_id w k)) = Inr job \<longrightarrow>
               try_get_job_run E self project_id job_id max_tries w =
                 (Inr job, after_failures E self project_id job_id w k
                             @ [HttpGet (run_url E self project_id job_id) (auth_get E self)]))
          \<and> (\<forall>e. fst (get_job_run E self project_id job_id
                          (after_failures E self project_id job_id w k)) = Inl e
                   \<and> \<not> is_RuntimeError e \<longrightarrow>
               try_get_job_run E self project_id job_id max_tries w =
                 (Inl e, after_failures E self project_id job_id w k
                           @ [HttpGet (run_url E self project_id job_id) (auth_get E self)])))"
proof (intro conjI impI allI)
  assume "k = nat max_tries"
  then show "try_get_job_run E self project_id job_id max_tries w =
              (Inl (RuntimeError (''Too many failures ('' @ py_str E job_id
                                    @ '') while querying for job status'')),
               after_failures E self project_id job_id w k)"
    using try_loop_exhausted[OF assms] by (simp add: try_get_job_run_def)
next
  assume "k = nat max_tries"
  then show "nreq (after_failures E self project_id job_id w k) = nreq w + nat max_tries"
    by (simp add: nreq_after_failures)
next
  fix job
  assume "k < nat max_tries"
    and "fst (get_job_run E self project_id job_id
               (after_failures E self project_id job_id w k)) = Inr job"
  then show "try_get_job_run E self project_id job_id max_tries w =
      (Inr job, after_failures E self project_id job_id w k
                  @ [HttpGet (run_url E self project_id job_id) (auth_get E self)])"
    using try_loop_stops[OF assms, of "nat max_tries" "Inr job"] by (simp add: try_get_job_run_def)
next
  fix e
  assume "k < nat max_tries"
    and "fst (get_job_run E self project_id job_id
               (after_failures E self project_id job_id w k)) = Inl e \<and> \<not> is_RuntimeError e"
  then show "try_get_job_run E self project_id job_id max_tries w =
      (Inl e, after_failures E self project_id job_id w k
                @ [HttpGet (run_url E self project_id job_id) (auth_get E self)])"
    using try_loop_stops[OF assms, of "nat max_tries" "Inl e"] by (simp add: try_get_job_run_def)
qed

text \<open>
  On the service that is busy once and then answers, the second attempt's payload is
  returned; on the service that is busy three times, the third failure ends the function.
\<close>

theorem try_get_job_run_bounded_retry_witness:
  "fst (get_job_run flaky_env demo_self (PInt 2) (PInt 42)
         (after_failures flaky_env demo_self (PInt 2) (PInt 42) [] 0)) = Inl (RuntimeError ''busy'')
   \<and> Suc 0 < nat 3
   \<and> fst (get_job_run flaky_env demo_self (PInt 2) (PInt 42)
         (after_failures flaky_env demo_self (PInt 2) (PInt 42) [] (Suc 0))) = Inr (run_payload 3)
   \<and> try_get_job_run flaky_env demo_self (PInt 2) (PInt 42) 3 [] =
       (Inr (run_payload 3),
        [HttpGet demo_run_url demo_get_headers, retry_line, Sleep 10,
         HttpGet demo_run_url demo_get_headers])
   \<and> try_get_job_run busy_env demo_self (PInt 2) (PInt 42) 3 [] =
       (Inl (RuntimeError ''Too many failures (42) while querying for job status''),
        [HttpGet demo_run_url demo_get_headers, retry_line, Sleep 10,
         HttpGet demo_run_url demo_get_headers, retry_line, Sleep 10,
         HttpGet demo_run_url demo_get_headers, retry_line, Sleep 10])"
proof -
  have a0: "fst (get_job_run flaky_env demo_self (PInt 2) (PInt 42)
         (after_failures flaky_env demo_self (PInt 2) (PInt 42) [] 0)) = Inl (RuntimeError ''busy'')"
    by code_simp
  have a1: "fst (get_job_run flaky_env demo_self (PInt 2) (PInt 42)
         (after_failures flaky_env demo_self (PInt 2) (PInt 42) [] (Suc 0))) = Inr (run_payload 3)"
    by code_simp
  have h: "\<forall>i<Suc 0. \<exists>m. fst (get_job_run flaky_env demo_self (PInt 2) (PInt 42)
         (after_failures flaky_env demo_self (PInt 2) (PInt 42) [] i)) = Inl (RuntimeError m)"
    using a0 by auto
  have lt: "Suc 0 < nat 3" by simp
  have w1: "after_failures flaky_env demo_self (PInt 2) (PInt 42) [] (Suc 0)
              @ [HttpGet (run_url flaky_env demo_self (PInt 2) (PInt 42)) (auth_get flaky_env demo_self)]
            = [HttpGet demo_run_url demo_get_headers, retry_line, Sleep 10,
               HttpGet demo_run_url demo_get_headers]"
    by code_simp
  have r1: "try_get_job_run flaky_env demo_self (PInt 2) (PInt 42) 3 [] =
       (Inr (run_payload 3),
        [HttpGet demo_run_url demo_get_headers, retry_line, Sleep 10,
         HttpGet demo_run_url demo_get_headers])"
    using try_get_job_run_bounded_retry[OF h, of 3] lt a1 w1 by simp
  have m: "''Too many failures ('' @ py_str busy_env (PInt 42) @ '') while querying for job status''
           = ''Too many failures (42) while querying for job status''"
    by code_simp
  have r2: "try_get_job_run busy_env demo_self (PInt 2) (PInt 42) 3 [] =
       (Inl (RuntimeError ''Too many failures (42) while querying for job status''),
        [HttpGet demo_run_url demo_get_headers, retry_line, Sleep 10,
         HttpGet demo_run_url demo_get_headers, retry_line, Sleep 10,
         HttpGet demo_run_url demo_get_headers, retry_line, Sleep 10])"
    using try_get_job_run_bounded_retry[OF busy_env_fails, of 3] busy_env_world m by simp
  from a0 lt a1 r1 r2 show ?thesis by blast
qed

text \<open>
  C2 as stated fails: the first attempt finds the connection dropped, which is raised as
  an error that is not a \<open>RuntimeError\<close>; the function raises after that one failed
  attempt, with one request made and no sleep, although \<open>max_tries\<close> is 3 and the
  second attempt would have succeeded.
\<close>

theorem try_get_job_run_raises_early_counterexample:
  "try_get_job_run offline_env demo_self (PInt 2) (PInt 42) 3 [] =
     (Inl (RequestException ''Connection aborted.''), [HttpGet demo_run_url demo_get_headers])"
  by code_simp

text \<open>
  C8, as amended. When every one of the \<open>max_tries\<close> attempts ended in a
  \<open>RuntimeError\<close>, the error raised is a \<open>RuntimeError\<close> whose message names the job id,
  between the parentheses; the message is the same for every attempt count.
\<close>

theorem try_get_job_run_exhausted_message:
  assumes "\<forall>i<nat max_tries. \<exists>m. fst (get_job_run E self project_id job_id
                          (after_failures E self project_id job_id w i)) = Inl (RuntimeError m)"
  shows "fst (try_get_job_run E self project_id job_id max_tries w) =
           Inl (RuntimeError (''Too many failures ('' @ py_str E job_id
                                @ '') while querying for job status''))"
  using try_loop_exhausted[OF assms] by (simp add: try_get_job_run_def)

theorem try_get_job_run_exhausted_message_witness:
  "fst (try_get_job_run busy_env demo_self (PInt 2) (PInt 42) 3 []) =
     Inl (RuntimeError (''Too many failures ('' @ ''42'' @ '') while querying for job status''))"
proof -
  have "py_str busy_env (PInt 42) = ''42''"
    by code_simp
  then show ?thesis
    using try_get_job_run_exhausted_message[OF busy_env_fails] by simp
qed

text \<open>
  C8 as stated fails: with job id 42 and three attempts, the message is
  \<open>Too many failures (42) while querying for job status\<close>, in which the attempt count 3
  does not occur.
\<close>

theorem try_get_job_run_message_counterexample:
  "fst (try_get_job_run busy_env demo_self (PInt 2) (PInt 42) 3 []) =
     Inl (RuntimeError ''Too many failures (42) while querying for job status'')
   \<and> CHR ''3'' \<notin> set ''Too many failures (42) while querying for job status''"
  by code_simp

text \<open>
  C10, as amended. When all \<open>max_tries\<close> attempts end in a \<open>RuntimeError\<close>, each of
  them, the last one included, is followed by a 10-second sleep: the events added are
  \<open>max_tries\<close> rounds of request, print and sleep, so the last event before the error is
  raised is the sleep, and the number of 10-second sleeps grows by \<open>max_tries\<close>.
\<close>

theorem try_get_job_run_sleeps_after_last_failure:
  assumes "0 < max_tries"
    and "\<forall>i<nat max_tries. \<exists>m. fst (get_job_run E self project_id job_id
                          (after_failures E self project_id job_id w i)) = Inl (RuntimeError m)"
  shows "(\<exists>m. fst (try_get_job_run E self project_id job_id max_tries w) = Inl (RuntimeError m))
       \<and> snd (try_get_job_run E self project_id job_id max_tries w)
           = w @ concat (replicate (nat max_tries) (retry_events E self project_id job_id))
       \<and> last (snd (try_get_job_run E self project_id job_id max_tries w)) = Sleep 10
       \<and> count_list (snd (try_get_job_run E self project_id job_id max_tries w)) (Sleep 10)
           = count_list w (Sleep 10) + nat max_tries"
proof -
  have r: "try_get_job_run E self project_id job_id max_tries w =
      (Inl (RuntimeError (''Too many failures ('' @ py_str E job_id
                            @ '') while querying for job status'')),
       after_failures E self project_id job_id w (nat max_tries))"
    using try_loop_exhausted[OF assms(2)] by (simp add: try_get_job_run_def)
  have pos: "0 < nat max_tries"
    using assms(1) by simp
  show ?thesis
    unfolding r using last_after_failures[OF pos]
    by (simp add: count_sleep_after_failures) (simp add: after_failures_def)
qed

theorem try_get_job_run_sleeps_after_last_failure_witness:
  "(0::int) < 3
   \<and> snd (try_get_job_run busy_env demo_self (PInt 2) (PInt 42) 3 []) =
       [HttpGet demo_run_url demo_get_headers, retry_line, Sleep 10,
        HttpGet demo_run_url demo_get_headers, retry_line, Sleep 10,
        HttpGet demo_run_url demo_get_headers, retry_line, Sleep 10]
   \<and> last (snd (try_get_job_run busy_env demo_self (PInt 2) (PInt 42) 3 [])) = Sleep 10
   \<and> count_list (snd (try_get_job_run busy_env demo_self (PInt 2) (PInt 42) 3 [])) (Sleep 10) = 3"
proof -
  have pos: "(0::int) < 3" by simp
  have w: "[] @ concat (replicate (nat 3) (retry_events busy_env demo_self (PInt 2) (PInt 42)))
           = [HttpGet demo_run_url demo_get_headers, retry_line, Sleep 10,
              HttpGet demo_run_url demo_get_headers, retry_line, Sleep 10,
              HttpGet demo_run_url demo_get_headers, retry_line, Sleep 10]"
    by code_simp
  show ?thesis
    using try_get_job_run_sleeps_after_last_failure[OF pos busy_env_fails] w
    by (simp add: retry_line_def)
qed

text \<open>
  C10 as stated fails: against the service that is busy twice and then drops the
  connection, all three attempts fail, but the third ends in an error that is not a
  \<open>RuntimeError\<close>, so it leaves the function at once. The last event is the third
  request, not a sleep, and there are two 10-second sleeps for three failed attempts.
\<close>

theorem try_get_job_run_no_sleep_counterexample:
  "try_get_job_run dropping_env demo_self (PInt 2) (PInt 42) 3 [] =
     (Inl (RequestException ''Connection aborted.''),
      [HttpGet demo_run_url demo_get_headers, retry_line, Sleep 10,
       HttpGet demo_run_url demo_get_headers, retry_line, Sleep 10,
       HttpGet demo_run_url demo_get_headers])
   \<and> last (snd (try_get_job_run dropping_env demo_self (PInt 2) (PInt 42) 3 []))
       = HttpGet demo_run_url demo_get_headers
   \<and> count_list (snd (try_get_job_run dropping_env demo_self (PInt 2) (PInt 42) 3 []))
         (Sleep 10) = 2"
  by code_simp

section \<open>The polling loop\<close>

lemma try_loop_extends:
  "\<exists>es. snd (try_loop E self pid jid n w) = w @ es \<and> (\<forall>e\<in>set es. \<not> is_post e)"
proof (induction n arbitrary: w)
  case 0
  then show ?case by simp
next
  case (Suc n)
  let ?g = "HttpGet (run_url E self pid jid) (auth_get E self)"
  let ?p = "Print (''Encountered a runtime error while fetching status for '' @ py_str E jid)"
  have g: "get_job_run E self pid jid w = (fst (get_job_run E self pid jid w), w @ [?g])"
    by (rule get_job_run_eqI) simp
  show ?case
  proof (cases "fst (get_job_run E self pid jid w)")
    case (Inr job)
    with g have "try_loop E self pid jid (Suc n) w = (Inr job, w @ [?g])" by simp
    then show ?thesis by simp
  next
    case (Inl e)
    show ?thesis
    proof (cases "is_RuntimeError e")
      case False
      with g Inl have "try_loop E self pid jid (Suc n) w = (Inl e, w @ [?g])" by simp
      then show ?thesis by simp
    next
      case True
      with g Inl have eq: "try_loop E self pid jid (Suc n) w =
          try_loop E self pid jid n (w @ [?g, ?p, Sleep 10])" by simp
      from Suc.IH[of "w @ [?g, ?p, Sleep 10]"] obtain es where
        "snd (try_loop E self pid jid n (w @ [?g, ?p, Sleep 10])) = (w @ [?g, ?p, Sleep 10]) @ es"
        "\<forall>e\<in>set es. \<not> is_post e" by blast
      then have "snd (try_loop E self pid jid (Suc n) w) = w @ ([?g, ?p, Sleep 10] @ es)
          \<and> (\<forall>e\<in>set ([?g, ?p, Sleep 10] @ es). \<not> is_post e)"
        unfolding eq by simp
      then show ?thesis by blast
    qed
  qed
qed

lemma try_get_job_run_extends:
  "try_get_job_run E self pid jid n w = (r, w1) \<Longrightarrow>
   \<exists>es. w1 = w @ es \<and> (\<forall>e\<in>set es. \<not> is_post e)"
  using try_loop_extends[of E self pid jid "nat n" w] by (simp add: try_get_job_run_def)

text \<open>One iteration whose fetch succeeded and whose status has a name.\<close>

lemma block_step:
  assumes "try_get_job_run E self pid jid 3 w = (Inr job, w1)"
    and "job_status_name job = Inr s"
  shows "block_until_complete E self pid jid w =
     (if s \<in> {''Success'', ''Error'', ''Cancelled''}
      then Some (Inr job, w1 @ [status_line E jid s])
      else block_until_complete E self pid jid (w1 @ [status_line E jid s, Sleep 30]))"
  using assms
  by (subst block_until_complete.simps) (simp add: status_line_def query_sleep_def Let_def)

text \<open>Whatever the loop returns, it has only added events, and none of them is a POST.\<close>

lemma block_extends_aux:
  "block_until_complete E self pid jid w = Some y \<Longrightarrow>
   \<exists>es. snd y = w @ es \<and> (\<forall>e\<in>set es. \<not> is_post e)"
proof (induction rule: block_until_complete.raw_induct[rotated 1, consumes 1])
  case (1 block E self pid jid w y)
  obtain r1 w1 where t: "try_get_job_run E self pid jid 3 w = (r1, w1)"
    by (cases "try_get_job_run E self pid jid 3 w")
  from try_get_job_run_extends[OF t] obtain es1 where
    es1: "w1 = w @ es1" "\<forall>e\<in>set es1. \<not> is_post e" by blast
  show ?case
  proof (cases r1)
    case (Inl e)
    with 1(2) t have "snd y = w1" by auto
    with es1 show ?thesis by blast
  next
    case (Inr job)
    show ?thesis
    proof (cases "job_status_name job")
      case (Inl e)
      with 1(2) t Inr have "snd y = w1" by auto
      with es1 show ?thesis by blast
    next
      case s: (Inr s)
      let ?p = "Print (''JOB: '' @ py_str E jid @ '', STATUS: '' @ s)"
      show ?thesis
      proof (cases "s \<in> set [''Success'', ''Error'', ''Cancelled'']")
        case True
        with 1(2) t Inr s have "snd y = w @ (es1 @ [?p])"
          by (auto simp: Let_def es1)
        moreover have "\<forall>e\<in>set (es1 @ [?p]). \<not> is_post e" using es1 by simp
        ultimately show ?thesis by blast
      next
        case False
        with 1(2) t Inr s have "block E self pid jid (w1 @ [?p] @ [Sleep query_sleep]) = Some y"
          by (simp add: Let_def)
        from 1(1)[OF this] obtain es where "snd y = (w1 @ [?p] @ [Sleep query_sleep]) @ es"
          "\<forall>e\<in>set es. \<not> is_post e" by blast
        then have "snd y = w @ (es1 @ [?p, Sleep query_sleep] @ es)
           \<and> (\<forall>e\<in>set (es1 @ [?p, Sleep query_sleep] @ es). \<not> is_post e)"
          using es1 by auto
        then show ?thesis by blast
      qed
    qed
  qed
qed

lemma block_extends:
  "block_until_complete E self pid jid w = Some (r, w') \<Longrightarrow>
   \<exists>es. w' = w @ es \<and> (\<forall>e\<in>set es. \<not> is_post e)"
  using block_extends_aux[of E self pid jid w "(r, w')"] by simp

text \<open>A payload the loop returns has a terminal status, and its status line was printed last.\<close>

lemma block_returns_terminal_aux:
  "block_until_complete E self pid jid w = Some y \<Longrightarrow>
   \<forall>job. fst y = Inr job \<longrightarrow>
     (\<exists>s w1. job_status_name job = Inr s \<and> s \<in> {''Success'', ''Error'', ''Cancelled''}
         \<and> snd y = w1 @ [status_line E jid s])"
proof (induction rule: block_until_complete.raw_induct[rotated 1, consumes 1])
  case (1 block E self pid jid w y)
  obtain r1 w1 where t: "try_get_job_run E self pid jid 3 w = (r1, w1)"
    by (cases "try_get_job_run E self pid jid 3 w")
  show ?case
  proof (cases r1)
    case (Inl e)
    with 1(2) t show ?thesis by auto
  next
    case (Inr job1)
    show ?thesis
    proof (cases "job_status_name job1")
      case (Inl e)
      with 1(2) t Inr show ?thesis by auto
    next
      case s: (Inr s)
      show ?thesis
      proof (cases "s \<in> set [''Success'', ''Error'', ''Cancelled'']")
        case True
        with 1(2) t Inr s have "y = (Inr job1, w1 @ [status_line E jid s])"
          by (simp add: Let_def status_line_def)
        with s True show ?thesis by auto
      next
        case False
        with 1(2) t Inr s have
          "block E self pid jid (w1 @ [Print (''JOB: '' @ py_str E jid @ '', STATUS: '' @ s)]
              @ [Sleep query_sleep]) = Some y"
          by (simp add: Let_def)
        from 1(1)[OF this] show ?thesis .
      qed
    qed
  qed
qed

lemma block_returns_terminal:
  "block_until_complete E self pid jid w = Some (Inr job, w') \<Longrightarrow>
   \<exists>s w1. job_status_name job = Inr s \<and> s \<in> {''Success'', ''Error'', ''Cancelled''}
         \<and> w' = w1 @ [status_line E jid s]"
  using block_returns_terminal_aux[of E self pid jid w "(Inr job, w')"] by simp

lemma pending_pollsD:
  assumes "pending_polls E self pid jid ws k" and "i < k"
  shows "\<exists>job0 w0 s0.
           try_get_job_run E self pid jid 3 (ws i) = (Inr job0, w0)
           \<and> job_status_name job0 = Inr s0
           \<and> s0 \<notin> {''Success'', ''Error'', ''Cancelled''}
           \<and> ws (Suc i) = w0 @ [status_line E jid s0, Sleep 30]"
proof -
  from assms have "case try_get_job_run E self pid jid 3 (ws i) of
          (Inl e, w0) \<Rightarrow> False
        | (Inr job0, w0) \<Rightarrow>
            (case job_status_name job0 of
               Inl e \<Rightarrow> False
             | Inr s0 \<Rightarrow>
                 s0 \<notin> {''Success'', ''Error'', ''Cancelled''}
                 \<and> ws (Suc i) = w0 @ [status_line E jid s0, Sleep 30])"
    by (simp add: pending_polls_def)
  then show ?thesis
    by (auto split: prod.splits sum.splits)
qed

text \<open>Pending polls lead to the first terminal one, from wherever in the sequence.\<close>

lemma block_reaches_terminal:
  assumes "pending_polls E self pid jid ws k"
    and "try_get_job_run E self pid jid 3 (ws k) = (Inr job, w1)"
    and "job_status_name job = Inr s"
    and "s \<in> {''Success'', ''Error'', ''Cancelled''}"
    and "i \<le> k"
  shows "block_until_complete E self pid jid (ws i) = Some (Inr job, w1 @ [status_line E jid s])"
proof -
  have "j \<le> k \<Longrightarrow> block_until_complete E self pid jid (ws (k - j)) =
                  Some (Inr job, w1 @ [status_line E jid s])" for j
  proof (induction j)
    case 0
    show ?case
      using block_step[OF assms(2) assms(3)] assms(4) by simp
  next
    case (Suc j)
    then have lt: "k - Suc j < k" and nxt: "Suc (k - Suc j) = k - j" and le: "j \<le> k"
      by simp_all
    from pending_pollsD[OF assms(1) lt] obtain job0 w0 s0 where
      f: "try_get_job_run E self pid jid 3 (ws (k - Suc j)) = (Inr job0, w0)"
      and n: "job_status_name job0 = Inr s0"
      and nt: "s0 \<notin> {''Success'', ''Error'', ''Cancelled''}"
      and w: "ws (Suc (k - Suc j)) = w0 @ [status_line E jid s0, Sleep 30]"
      by blast
    have "block_until_complete E self pid jid (ws (k - Suc j)) =
          block_until_complete E self pid jid (ws (k - j))"
      using block_step[OF f n] nt w nxt by simp
    with Suc.IH[OF le] show ?case by simp
  qed
  from this[of "k - i"] assms(5) show ?thesis
    by simp
qed

text \<open>
  C3. Take any sequence of fetches of which the first \<open>k\<close> are pending polls: each yields
  a payload with a non-terminal status name, after which the loop prints the status line
  and sleeps 30 seconds, and the next fetch happens in the world so reached. Let the
  fetch in world \<open>ws k\<close> be the first with a status name among Success, Error and
  Cancelled. Then the loop, started in any of these worlds, returns that fetch's payload,
  and the last thing it did is print the status line of that fetch: no sleep follows it.
\<close>

theorem block_until_complete_stops_at_first_terminal:
  assumes "pending_polls E self project_id job_id ws k"
    and "try_get_job_run E self project_id job_id 3 (ws k) = (Inr job, w1)"
    and "job_status_name job = Inr s"
    and "s \<in> {''Success'', ''Error'', ''Cancelled''}"
  shows "\<forall>i\<le>k. block_until_complete E self project_id job_id (ws i) =
                  Some (Inr job, w1 @ [status_line E job_id s])"
  using block_reaches_terminal[OF assms] by blast

text \<open>
  A run polled as Queued, Running, Success: two sleeps of 30 seconds, none after the
  fetch that found Success.
\<close>

theorem block_until_complete_stops_at_first_terminal_witness:
  "pending_polls polling_env demo_self (PInt 2) (PInt 42) poll_worlds 2
   \<and> try_get_job_run polling_env demo_self (PInt 2) (PInt 42) 3 (poll_worlds 2)
     = (Inr (run_payload 10), poll_worlds 2 @ [HttpGet demo_run_url demo_get_headers])
   \<and> job_status_name (run_payload 10) = Inr ''Success''
   \<and> ''Success'' \<in> {''Success'', ''Error'', ''Cancelled''}
   \<and> poll_worlds 0 = []
   \<and> poll_worlds 2 =
       [HttpGet demo_run_url demo_get_headers, Print ''JOB: 42, STATUS: Queued'', Sleep 30,
        HttpGet demo_run_url demo_get_headers, Print ''JOB: 42, STATUS: Running'', Sleep 30]
   \<and> block_until_complete polling_env demo_self (PInt 2) (PInt 42) [] =
       Some (Inr (run_payload 10),
             [HttpGet demo_run_url demo_get_headers, Print ''JOB: 42, STATUS: Queued'', Sleep 30,
              HttpGet demo_run_url demo_get_headers, Print ''JOB: 42, STATUS: Running'', Sleep 30,
              HttpGet demo_run_url demo_get_headers, Print ''JOB: 42, STATUS: Success''])"
proof -
  let ?g = "HttpGet demo_run_url demo_get_headers"
  have p: "pending_polls polling_env demo_self (PInt 2) (PInt 42) poll_worlds 2"
    by code_simp
  have f: "try_get_job_run polling_env demo_self (PInt 2) (PInt 42) 3 (poll_worlds 2)
     = (Inr (run_payload 10), poll_worlds 2 @ [?g])"
    by code_simp
  have n: "job_status_name (run_payload 10) = Inr ''Success''"
    by code_simp
  have t: "''Success'' \<in> {''Success'', ''Error'', ''Cancelled''}"
    by simp
  have start: "poll_worlds 0 = []"
    by code_simp
  have mid: "poll_worlds 2 =
       [?g, Print ''JOB: 42, STATUS: Queued'', Sleep 30,
        ?g, Print ''JOB: 42, STATUS: Running'', Sleep 30]"
    by code_simp
  have final: "(poll_worlds 2 @ [?g]) @ [status_line polling_env (PInt 42) ''Success'']
      = [?g, Print ''JOB: 42, STATUS: Queued'', Sleep 30,
         ?g, Print ''JOB: 42, STATUS: Running'', Sleep 30,
         ?g, Print ''JOB: 42, STATUS: Success'']"
    by code_simp
  have "block_until_complete polling_env demo_self (PInt 2) (PInt 42) (poll_worlds 0) =
          Some (Inr (run_payload 10),
                (poll_worlds 2 @ [?g]) @ [status_line polling_env (PInt 42) ''Success''])"
    using block_until_complete_stops_at_first_terminal[OF p f n t] by blast
  with p f n t start mid final show ?thesis
    by simp
qed

section \<open>Claims about the status table and the HTTP helpers\<close>

text \<open>
  C4. An integer status code outside 1, 2, 3, 10, 20, 30 is looked up as \<open>Unknown\<close>, with
  no error; the six known codes have their fixed labels.
\<close>

theorem lookup_unknown_code:
  "(n \<notin> {1, 2, 3, 10, 20, 30} \<longrightarrow> lookup (PInt n) = Inr ''Unknown'')
   \<and> lookup (PInt 1) = Inr ''Queued''
   \<and> lookup (PInt 2) = Inr ''Queued''
   \<and> lookup (PInt 3) = Inr ''Running''
   \<and> lookup (PInt 10) = Inr ''Success''
   \<and> lookup (PInt 20) = Inr ''Error''
   \<and> lookup (PInt 30) = Inr ''Cancelled''"
  by (simp add: LOOKUP_get_def LOOKUP_def queued_def dequeued_def running_def success_def
        error_def cancelled_def)

theorem lookup_unknown_code_witness:
  "(7::int) \<notin> {1, 2, 3, 10, 20, 30} \<and> lookup (PInt 7) = Inr ''Unknown''
   \<and> (- 1::int) \<notin> {1, 2, 3, 10, 20, 30} \<and> lookup (PInt (- 1)) = Inr ''Unknown''"
  using lookup_unknown_code[of 7] lookup_unknown_code[of "- 1"] by simp

text \<open>
  C6. \<open>_get\<close> and \<open>_post\<close> issue exactly one request each and nothing else. When the
  service answers with a response, a status other than 200 (for \<open>_get\<close>) or 201 (for
  \<open>_post\<close>) raises a \<open>RuntimeError\<close> carrying the response body as it is, and the
  expected status yields what \<open>json.loads\<close> makes of the body. Each of the five
  operations issues exactly one request, and raises that same error on an unexpected
  status.
\<close>

theorem api_client_single_request:
  "snd (sinter_get E self url_suffix w)
     = w @ [HttpGet (api_base self @ url_suffix) (auth_get E self)]
   \<and> snd (sinter_post E self url_suffix w)
     = w @ [HttpPost (api_base self @ url_suffix) (auth_post E self)]
   \<and> (requests_get E (nreq w) (api_base self @ url_suffix) (auth_get E self) = Inr r \<longrightarrow>
        fst (sinter_get E self url_suffix w) =
          (if status_code r = 200 then json_loads E (content r)
           else Inl (RuntimeError (content r))))
   \<and> (requests_post E (nreq w) (api_base self @ url_suffix) (auth_post E self) = Inr r \<longrightarrow>
        fst (sinter_post E self url_suffix w) =
          (if status_code r = 201 then json_loads E (content r)
           else Inl (RuntimeError (content r))))
   \<and> nreq (snd (list_projects E self w)) = Suc (nreq w)
   \<and> nreq (snd (get_project E self project_id w)) = Suc (nreq w)
   \<and> nreq (snd (list_job_definitions E self project_id w)) = Suc (nreq w)
   \<and> nreq (snd (get_job_run E self project_id job_id w)) = Suc (nreq w)
   \<and> nreq (snd (trigger_job_run E self project_id definition_id w)) = Suc (nreq w)
   \<and> ((\<forall>u h. requests_get E (nreq w) u h = Inr r) \<and> status_code r \<noteq> 200 \<longrightarrow>
        fst (list_projects E self w) = Inl (RuntimeError (content r))
        \<and> fst (get_project E self project_id w) = Inl (RuntimeError (content r))
        \<and> fst (list_job_definitions E self project_id w) = Inl (RuntimeError (content r))
        \<and> fst (get_job_run E self project_id job_id w) = Inl (RuntimeError (content r)))
   \<and> ((\<forall>u h. requests_post E (nreq w) u h = Inr r) \<and> status_code r \<noteq> 201 \<longrightarrow>
        fst (trigger_job_run E self project_id definition_id w) = Inl (RuntimeError (content r)))"
proof -
  have one_get: "nreq (snd (sinter_get E self s w)) = Suc (nreq w)" for s
    by (simp add: sinter_get_world)
  have one_post: "nreq (snd (sinter_post E self s w)) = Suc (nreq w)" for s
    by (simp add: sinter_post_world)
  have wrap: "snd (case p of (Inl e, w') \<Rightarrow> (Inl e, w') | (Inr body, w') \<Rightarrow> (f body, w')) = snd p"
    for p :: "(exn + pyval) \<times> world" and f :: "pyval \<Rightarrow> exn + pyval"
    by (cases p) (simp split: sum.splits)
  have wrap_err: "fst p = Inl e \<Longrightarrow>
      fst (case p of (Inl e, w') \<Rightarrow> (Inl e, w') | (Inr body, w') \<Rightarrow> (f body, w')) = Inl e"
    for p :: "(exn + pyval) \<times> world" and f :: "pyval \<Rightarrow> exn + pyval" and e
    by (cases p) simp
  have get_err: "fst (sinter_get E self s w) = Inl (RuntimeError (content r))"
    if "\<forall>u h. requests_get E (nreq w) u h = Inr r" "status_code r \<noteq> 200" for s
    using that by (simp add: sinter_get_result)
  have post_err: "fst (sinter_post E self s w) = Inl (RuntimeError (content r))"
    if "\<forall>u h. requests_post E (nreq w) u h = Inr r" "status_code r \<noteq> 201" for s
    using that by (simp add: sinter_post_result)
  show ?thesis
    by (intro conjI impI)
       (simp_all add: sinter_get_world sinter_post_world sinter_get_result sinter_post_result
          list_projects_def get_project_def list_job_definitions_def get_job_run_def
          trigger_job_run_def wrap one_get one_post wrap_err get_err post_err)
qed

text \<open>
  A missing resource (404) raises with the body \<open>not found\<close>; a 200 answer with the
  definitions yields the decoded list. One request is made in each case.
\<close>

theorem api_client_single_request_witness:
  "requests_get missing_env (nreq []) (api_base demo_self @ ''/x/'') (auth_get missing_env demo_self)
     = Inr \<lparr>status_code = 404, content = ''not found''\<rparr>
   \<and> sinter_get missing_env demo_self ''/x/'' [] =
       (Inl (RuntimeError ''not found''),
        [HttpGet ''https://cloud.getdbt.com/api/v1/x/'' demo_get_headers])
   \<and> requests_get defs_env (nreq []) (api_base demo_self @ ''/x/'') (auth_get defs_env demo_self)
     = Inr \<lparr>status_code = 200, content = defs_body\<rparr>
   \<and> sinter_get defs_env demo_self ''/x/'' [] =
       (Inr (PList [nightly_def, hourly_def]),
        [HttpGet ''https://cloud.getdbt.com/api/v1/x/'' demo_get_headers])
   \<and> (\<forall>u h. requests_post missing_env (nreq []) u h
               = Inr \<lparr>status_code = 404, content = ''not found''\<rparr>)
   \<and> fst (trigger_job_run missing_env demo_self (PInt 2) (PInt 7) [])
       = Inl (RuntimeError ''not found'')"
proof -
  let ?nf = "\<lparr>status_code = 404, content = ''not found''\<rparr>"
  let ?ok = "\<lparr>status_code = 200, content = defs_body\<rparr>"
  have g1: "requests_get missing_env (nreq []) (api_base demo_self @ ''/x/'')
              (auth_get missing_env demo_self) = Inr ?nf"
    by (simp add: missing_env_def scripted_def reply_def)
  have g2: "requests_get defs_env (nreq []) (api_base demo_self @ ''/x/'')
              (auth_get defs_env demo_self) = Inr ?ok"
    by (simp add: defs_env_def scripted_def reply_def)
  have p1: "\<forall>u h. requests_post missing_env (nreq []) u h = Inr ?nf"
    by (simp add: missing_env_def scripted_def reply_def)
  have l: "json_loads defs_env defs_body = Inr (PList [nightly_def, hourly_def])"
    by (simp add: defs_env_def scripted_def demo_loads_def)
  have u1: "[] @ [HttpGet (api_base demo_self @ ''/x/'') (auth_get missing_env demo_self)]
            = [HttpGet ''https://cloud.getdbt.com/api/v1/x/'' demo_get_headers]"
    by code_simp
  have u2: "[] @ [HttpGet (api_base demo_self @ ''/x/'') (auth_get defs_env demo_self)]
            = [HttpGet ''https://cloud.getdbt.com/api/v1/x/'' demo_get_headers]"
    by code_simp
  note a = api_client_single_request[of missing_env demo_self "''/x/''" "[]" ?nf "PInt 2" "PInt 42" "PInt 7"]
  note b = api_client_single_request[of defs_env demo_self "''/x/''" "[]" ?ok "PInt 2" "PInt 42" "PInt 7"]
  have r1: "sinter_get missing_env demo_self ''/x/'' [] =
       (Inl (RuntimeError ''not found''),
        [HttpGet ''https://cloud.getdbt.com/api/v1/x/'' demo_get_headers])"
    using a g1 u1 by (simp add: prod_eq_iff)
  have r2: "sinter_get defs_env demo_self ''/x/'' [] =
       (Inr (PList [nightly_def, hourly_def]),
        [HttpGet ''https://cloud.getdbt.com/api/v1/x/'' demo_get_headers])"
    using b g2 u2 l by (simp add: prod_eq_iff)
  have r3: "fst (trigger_job_run missing_env demo_self (PInt 2) (PInt 7) [])
       = Inl (RuntimeError ''not found'')"
    using a p1 by simp
  from g1 r1 g2 r2 p1 r3 show ?thesis by blast
qed

section \<open>Claims about run\_job\<close>

text \<open>On records that all have a name, the comprehension is the filter by that name.\<close>

lemma filter_by_name_filter:
  "\<forall>d\<in>set ds. has_name d \<Longrightarrow>
   filter_by_name ds job_name = Inr (filter (matches job_name) ds)"
proof (induction ds)
  case Nil
  then show ?case by simp
next
  case (Cons d ds)
  then obtain v where v: "getitem d ''name'' = Inr v"
    by (auto simp: has_name_def split: sum.splits)
  with Cons show ?case
    by (simp add: matches_def)
qed

lemma list_job_definitions_eq:
  "list_job_definitions E self project_id w =
     (case requests_get E (nreq w) (definitions_url E self project_id) (auth_get E self) of
        Inl e \<Rightarrow> Inl e
      | Inr r \<Rightarrow> if status_code r = 200 then json_loads E (content r)
                 else Inl (RuntimeError (content r)),
      w @ [HttpGet (definitions_url E self project_id) (auth_get E self)])"
  unfolding list_job_definitions_def definitions_url_def
  using sinter_get_world[of E self _ w] sinter_get_result[of E self _ w]
  by (simp add: prod_eq_iff)

lemma trigger_job_run_eq:
  "trigger_job_run E self project_id definition_id w =
     (case requests_post E (nreq w) (trigger_url E self project_id definition_id) (auth_post E self) of
        Inl e \<Rightarrow> Inl e
      | Inr r \<Rightarrow> if status_code r = 201 then json_loads E (content r)
                 else Inl (RuntimeError (content r)),
      w @ [HttpPost (trigger_url E self project_id definition_id) (auth_post E self)])"
  unfolding trigger_job_run_def trigger_url_def
  using sinter_post_world[of E self _ w] sinter_post_result[of E self _ w]
  by (simp add: prod_eq_iff)

text \<open>\<open>run_job\<close> once the name has selected one definition and its run has been triggered.\<close>

lemma run_job_after_trigger:
  assumes "list_job_definitions E self project_id w = (Inr definitions, w1)"
    and "py_iter definitions = Inr ds"
    and "filter_by_name ds job_name = Inr [job_def]"
    and "getitem job_def ''id'' = Inr definition_id"
    and "trigger_job_run E self project_id definition_id w1 = (Inr trigger_resp, w2)"
    and "getitem trigger_resp ''id'' = Inr job_id"
  shows "run_job E self project_id job_name w =
     (case block_until_complete E self project_id job_id w2 of
        None \<Rightarrow> None
      | Some (Inl e, w3) \<Rightarrow> Some (Inl e, w3)
      | Some (Inr job, w3) \<Rightarrow>
          (case job_status_name job of
             Inl e \<Rightarrow> Some (Inl e, w3)
           | Inr status_name \<Rightarrow>
               if status_name = ''Success'' then Some (Inr job, w3)
               else Some (Inl (AirflowException (''Run failed with status: '' @ status_name)), w3)))"
  using assms by (simp add: run_job_def)

text \<open>
  C1. Let the service answer the definitions request with status 200 and a list of
  definition records, each with a name, of which exactly one, \<open>job_def\<close>, has the requested
  name; let it answer the trigger request for that definition's id with status 201 and a
  run whose id is \<open>job_id\<close>; and let the polls of that run, which start in the world left
  by these two requests, be pending \<open>k\<close> times and then fetch the payload \<open>job\<close> whose
  status is named Success. Then \<open>run_job\<close> returns that payload, and the only POST it has
  added to the trace is the trigger of \<open>job_def\<close>'s id.
\<close>

theorem run_job_returns_payload_on_success:
  assumes "requests_get E (nreq w) (definitions_url E self project_id) (auth_get E self) = Inr r1"
    and "status_code r1 = 200"
    and "json_loads E (content r1) = Inr (PList ds)"
    and "\<forall>d\<in>set ds. has_name d"
    and "filter (matches job_name) ds = [job_def]"
    and "getitem job_def ''id'' = Inr definition_id"
    and "requests_post E (Suc (nreq w)) (trigger_url E self project_id definition_id)
           (auth_post E self) = Inr r2"
    and "status_code r2 = 201"
    and "json_loads E (content r2) = Inr trigger_resp"
    and "getitem trigger_resp ''id'' = Inr job_id"
    and "ws 0 = w @ [HttpGet (definitions_url E self project_id) (auth_get E self),
                     HttpPost (trigger_url E self project_id definition_id) (auth_post E self)]"
    and "pending_polls E self project_id job_id ws k"
    and "try_get_job_run E self project_id job_id 3 (ws k) = (Inr job, w1)"
    and "job_status_name job = Inr ''Success''"
  shows "run_job E self project_id job_name w
           = Some (Inr job, w1 @ [status_line E job_id ''Success''])
       \<and> filter is_post (w1 @ [status_line E job_id ''Success'']) =
           filter is_post w
             @ [HttpPost (trigger_url E self project_id definition_id) (auth_post E self)]"
proof -
  let ?g = "HttpGet (definitions_url E self project_id) (auth_get E self)"
  let ?p = "HttpPost (trigger_url E self project_id definition_id) (auth_post E self)"
  let ?w3 = "w1 @ [status_line E job_id ''Success'']"
  have d: "list_job_definitions E self project_id w = (Inr (PList ds), w @ [?g])"
    using assms(1-3) by (simp add: list_job_definitions_eq)
  have i: "py_iter (PList ds) = Inr ds"
    by simp
  have f: "filter_by_name ds job_name = Inr [job_def]"
    using filter_by_name_filter[OF assms(4)] assms(5) by simp
  have t: "trigger_job_run E self project_id definition_id (w @ [?g])
             = (Inr trigger_resp, (w @ [?g]) @ [?p])"
    using assms(7-9) by (simp add: trigger_job_run_eq)
  have terminal: "''Success'' \<in> {''Success'', ''Error'', ''Cancelled''}"
    by simp
  have "block_until_complete E self project_id job_id (ws 0) = Some (Inr job, ?w3)"
    using block_reaches_terminal[OF assms(12) assms(13) assms(14) terminal, of 0] by simp
  then have b: "block_until_complete E self project_id job_id ((w @ [?g]) @ [?p])
                  = Some (Inr job, ?w3)"
    using assms(11) by simp
  have r: "run_job E self project_id job_name w = Some (Inr job, ?w3)"
    using run_job_after_trigger[OF d i f assms(6) t assms(10)] b assms(14) by simp
  from block_extends[OF b] obtain es where "?w3 = ((w @ [?g]) @ [?p]) @ es"
    and "\<forall>e\<in>set es. \<not> is_post e"
    by blast
  then have "filter is_post ?w3 = filter is_post w @ [?p]"
    by simp
  with r show ?thesis by simp
qed

text \<open>
  A whole run against the scripted service: the definitions, the trigger, a Queued
  status, one busy answer that is retried, a Running status, then Success.
\<close>

theorem run_job_returns_payload_on_success_witness:
  "requests_get success_env (nreq []) (definitions_url success_env demo_self (PInt 2))
       (auth_get success_env demo_self) = reply 200 defs_body
   \<and> json_loads success_env defs_body = Inr (PList [nightly_def, hourly_def])
   \<and> has_name nightly_def \<and> has_name hourly_def
   \<and> filter (matches ''nightly'') [nightly_def, hourly_def] = [nightly_def]
   \<and> getitem nightly_def ''id'' = Inr (PInt 7)
   \<and> requests_post success_env (Suc (nreq [])) (trigger_url success_env demo_self (PInt 2) (PInt 7))
       (auth_post success_env demo_self) = reply 201 (run_body 1)
   \<and> json_loads success_env (run_body 1) = Inr (run_payload 1)
   \<and> getitem (run_payload 1) ''id'' = Inr (PInt 42)
   \<and> success_worlds 0 =
       [HttpGet demo_definitions_url demo_get_headers, HttpPost demo_trigger_url demo_post_headers]
   \<and> pending_polls success_env demo_self (PInt 2) (PInt 42) success_worlds 2
   \<and> try_get_job_run success_env demo_self (PInt 2) (PInt 42) 3 (success_worlds 2)
       = (Inr (run_payload 10), success_worlds 2 @ [HttpGet demo_run_url demo_get_headers])
   \<and> job_status_name (run_payload 10) = Inr ''Success''
   \<and> run_job success_env demo_self (PInt 2) ''nightly'' [] =
       Some (Inr (run_payload 10),
             [HttpGet demo_definitions_url demo_get_headers,
              HttpPost demo_trigger_url demo_post_headers,
              HttpGet demo_run_url demo_get_headers, Print ''JOB: 42, STATUS: Queued'', Sleep 30,
              HttpGet demo_run_url demo_get_headers, retry_line, Sleep 10,
              HttpGet demo_run_url demo_get_headers, Print ''JOB: 42, STATUS: Running'', Sleep 30,
              HttpGet demo_run_url demo_get_headers, Print ''JOB: 42, STATUS: Success''])"
proof -
  let ?E = success_env
  let ?trace = "[HttpGet demo_definitions_url demo_get_headers,
              HttpPost demo_trigger_url demo_post_headers,
              HttpGet demo_run_url demo_get_headers, Print ''JOB: 42, STATUS: Queued'', Sleep 30,
              HttpGet demo_run_url demo_get_headers, retry_line, Sleep 10,
              HttpGet demo_run_url demo_get_headers, Print ''JOB: 42, STATUS: Running'', Sleep 30,
              HttpGet demo_run_url demo_get_headers, Print ''JOB: 42, STATUS: Success'']"
  have h1: "requests_get ?E (nreq []) (definitions_url ?E demo_self (PInt 2))
       (auth_get ?E demo_self) = Inr \<lparr>status_code = 200, content = defs_body\<rparr>"
    by (simp add: success_env_def scripted_def reply_def)
  have h2: "status_code \<lparr>status_code = 200, content = defs_body\<rparr> = 200"
    by simp
  have h3: "json_loads ?E (content \<lparr>status_code = 200, content = defs_body\<rparr>)
              = Inr (PList [nightly_def, hourly_def])"
    by (simp add: success_env_def scripted_def demo_loads_def)
  have n1: "has_name nightly_def" and n2: "has_name hourly_def"
    by (simp_all add: has_name_def nightly_def_def hourly_def_def)
  then have h4: "\<forall>d\<in>set [nightly_def, hourly_def]. has_name d"
    by simp
  have h5: "filter (matches ''nightly'') [nightly_def, hourly_def] = [nightly_def]"
    by (simp add: matches_def nightly_def_def hourly_def_def)
  have h6: "getitem nightly_def ''id'' = Inr (PInt 7)"
    by (simp add: nightly_def_def)
  have h7: "requests_post ?E (Suc (nreq [])) (trigger_url ?E demo_self (PInt 2) (PInt 7))
       (auth_post ?E demo_self) = Inr \<lparr>status_code = 201, content = run_body 1\<rparr>"
    by (simp add: success_env_def scripted_def reply_def)
  have h8: "status_code \<lparr>status_code = 201, content = run_body 1\<rparr> = 201"
    by simp
  have h9: "json_loads ?E (content \<lparr>status_code = 201, content = run_body 1\<rparr>)
              = Inr (run_payload 1)"
    by code_simp
  have h10: "getitem (run_payload 1) ''id'' = Inr (PInt 42)"
    by (simp add: run_payload_def)
  have s0: "success_worlds 0 =
       [HttpGet demo_definitions_url demo_get_headers, HttpPost demo_trigger_url demo_post_headers]"
    by code_simp
  have h11: "success_worlds 0 =
           [] @ [HttpGet (definitions_url ?E demo_self (PInt 2)) (auth_get ?E demo_self),
                 HttpPost (trigger_url ?E demo_self (PInt 2) (PInt 7)) (auth_post ?E demo_self)]"
    by code_simp
  have h12: "pending_polls ?E demo_self (PInt 2) (PInt 42) success_worlds 2"
    by code_simp
  have h13: "try_get_job_run ?E demo_self (PInt 2) (PInt 42) 3 (success_worlds 2)
       = (Inr (run_payload 10), success_worlds 2 @ [HttpGet demo_run_url demo_get_headers])"
    by code_simp
  have h14: "job_status_name (run_payload 10) = Inr ''Success''"
    by code_simp
  have final: "(success_worlds 2 @ [HttpGet demo_run_url demo_get_headers])
                 @ [status_line ?E (PInt 42) ''Success''] = ?trace"
    by code_simp
  have r: "run_job ?E demo_self (PInt 2) ''nightly'' [] = Some (Inr (run_payload 10), ?trace)"
    using run_job_returns_payload_on_success[OF h1 h2 h3 h4 h5 h6 h7 h8 h9 h10 h11 h12 h13 h14]
          final
    by simp
  from h1 h3 n1 n2 h5 h6 h7 h9 h10 s0 h12 h13 h14 r show ?thesis
    by (simp add: reply_def)
qed

text \<open>
  C5. Let the service answer the definitions request with status 200 and a body that
  can be iterated into records that all have a name. When the number of records with the
  requested name is not one, \<open>run_job\<close> raises an \<open>AirflowException\<close> that says how many
  were found, and the definitions request is the only thing it has done: the trace holds
  no POST it did not hold before.
\<close>

theorem run_job_raises_without_trigger:
  assumes "requests_get E (nreq w) (definitions_url E self project_id) (auth_get E self) = Inr r1"
    and "status_code r1 = 200"
    and "json_loads E (content r1) = Inr definitions"
    and "py_iter definitions = Inr ds"
    and "\<forall>d\<in>set ds. has_name d"
    and "length (filter (matches job_name) ds) \<noteq> 1"
  shows "run_job E self project_id job_name w =
           Some (Inl (AirflowException
                       (str_int (int (length (filter (matches job_name) ds)))
                          @ '' jobs found for '' @ job_name)),
                 w @ [HttpGet (definitions_url E self project_id) (auth_get E self)])
       \<and> filter is_post (w @ [HttpGet (definitions_url E self project_id) (auth_get E self)])
           = filter is_post w"
proof -
  have d: "list_job_definitions E self project_id w =
      (Inr definitions, w @ [HttpGet (definitions_url E self project_id) (auth_get E self)])"
    using assms(1-3) by (simp add: list_job_definitions_eq)
  have f: "filter_by_name ds job_name = Inr (filter (matches job_name) ds)"
    using filter_by_name_filter[OF assms(5)] .
  show ?thesis
    using d assms(4) f assms(6) by (simp add: run_job_def)
qed

text \<open>No definition is named \<open>weekly\<close>; two are named \<open>nightly\<close> when the list repeats it.\<close>

theorem run_job_raises_without_trigger_witness:
  "requests_get defs_env (nreq []) (definitions_url defs_env demo_self (PInt 2))
       (auth_get defs_env demo_self) = reply 200 defs_body
   \<and> json_loads defs_env defs_body = Inr (PList [nightly_def, hourly_def])
   \<and> py_iter (PList [nightly_def, hourly_def]) = Inr [nightly_def, hourly_def]
   \<and> has_name nightly_def \<and> has_name hourly_def
   \<and> length (filter (matches ''weekly'') [nightly_def, hourly_def]) \<noteq> 1
   \<and> run_job defs_env demo_self (PInt 2) ''weekly'' [] =
       Some (Inl (AirflowException ''0 jobs found for weekly''),
             [HttpGet demo_definitions_url demo_get_headers])"
proof -
  let ?E = defs_env
  have h1: "requests_get ?E (nreq []) (definitions_url ?E demo_self (PInt 2))
       (auth_get ?E demo_self) = Inr \<lparr>status_code = 200, content = defs_body\<rparr>"
    by (simp add: defs_env_def scripted_def reply_def)
  have h2: "status_code \<lparr>status_code = 200, content = defs_body\<rparr> = 200"
    by simp
  have h3: "json_loads ?E (content \<lparr>status_code = 200, content = defs_body\<rparr>)
              = Inr (PList [nightly_def, hourly_def])"
    by (simp add: defs_env_def scripted_def demo_loads_def)
  have h4: "py_iter (PList [nightly_def, hourly_def]) = Inr [nightly_def, hourly_def]"
    by simp
  have n1: "has_name nightly_def" and n2: "has_name hourly_def"
    by (simp_all add: has_name_def nightly_def_def hourly_def_def)
  then have h5: "\<forall>d\<in>set [nightly_def, hourly_def]. has_name d"
    by simp
  have c: "filter (matches ''weekly'') [nightly_def, hourly_def] = []"
    by (simp add: matches_def nightly_def_def hourly_def_def)
  then have h6: "length (filter (matches ''weekly'') [nightly_def, hourly_def]) \<noteq> 1"
    by simp
  have u: "[] @ [HttpGet (definitions_url ?E demo_self (PInt 2)) (auth_get ?E demo_self)]
           = [HttpGet demo_definitions_url demo_get_headers]"
    by code_simp
  have s: "str_int (int (length ([] :: pyval list))) = ''0''"
    by code_simp
  have r: "run_job ?E demo_self (PInt 2) ''weekly'' [] =
       Some (Inl (AirflowException ''0 jobs found for weekly''),
             [HttpGet demo_definitions_url demo_get_headers])"
    using run_job_raises_without_trigger[OF h1 h2 h3 h4 h5 h6] c u s by simp
  from h1 h3 h4 n1 n2 h6 r show ?thesis
    by (simp add: reply_def)
qed

text \<open>
  C7. Once a run has been triggered, let its polls be pending \<open>k\<close> times and then fetch
  a payload whose status is named Error or Cancelled. Then \<open>run_job\<close> raises an
  \<open>AirflowException\<close> whose message ends with that name. And whenever \<open>run_job\<close> returns
  a payload at all, the status of that payload is named Success.
\<close>

theorem run_job_raises_on_failed_run:
  "(list_job_definitions E self project_id w = (Inr definitions, w1)
      \<and> py_iter definitions = Inr ds
      \<and> filter_by_name ds job_name = Inr [job_def]
      \<and> getitem job_def ''id'' = Inr definition_id
      \<and> trigger_job_run E self project_id definition_id w1 = (Inr trigger_resp, ws 0)
      \<and> getitem trigger_resp ''id'' = Inr job_id
      \<and> pending_polls E self project_id job_id ws k
      \<and> try_get_job_run E self project_id job_id 3 (ws k) = (Inr job, w3)
      \<and> job_status_name job = Inr s
      \<and> s \<in> {''Error'', ''Cancelled''}
    \<longrightarrow> run_job E self project_id job_name w =
          Some (Inl (AirflowException (''Run failed with status: '' @ s)),
                w3 @ [status_line E job_id s]))
   \<and> (run_job E self project_id job_name w = Some (Inr job', w')
    \<longrightarrow> job_status_name job' = Inr ''Success'')"
proof (intro conjI impI)
  assume a: "list_job_definitions E self project_id w = (Inr definitions, w1)
      \<and> py_iter definitions = Inr ds
      \<and> filter_by_name ds job_name = Inr [job_def]
      \<and> getitem job_def ''id'' = Inr definition_id
      \<and> trigger_job_run E self project_id definition_id w1 = (Inr trigger_resp, ws 0)
      \<and> getitem trigger_resp ''id'' = Inr job_id
      \<and> pending_polls E self project_id job_id ws k
      \<and> try_get_job_run E self project_id job_id 3 (ws k) = (Inr job, w3)
      \<and> job_status_name job = Inr s
      \<and> s \<in> {''Error'', ''Cancelled''}"
  then have a1: "list_job_definitions E self project_id w = (Inr definitions, w1)"
    and a2: "py_iter definitions = Inr ds"
    and a3: "filter_by_name ds job_name = Inr [job_def]"
    and a4: "getitem job_def ''id'' = Inr definition_id"
    and a5: "trigger_job_run E self project_id definition_id w1 = (Inr trigger_resp, ws 0)"
    and a6: "getitem trigger_resp ''id'' = Inr job_id"
    and p: "pending_polls E self project_id job_id ws k"
    and f: "try_get_job_run E self project_id job_id 3 (ws k) = (Inr job, w3)"
    and s: "job_status_name job = Inr s"
    and failed: "s \<in> {''Error'', ''Cancelled''}"
    by simp_all
  from failed have terminal: "s \<in> {''Success'', ''Error'', ''Cancelled''}" and ns: "s \<noteq> ''Success''"
    by auto
  have b: "block_until_complete E self project_id job_id (ws 0)
             = Some (Inr job, w3 @ [status_line E job_id s])"
    using block_reaches_terminal[OF p f s terminal, of 0] by simp
  show "run_job E self project_id job_name w =
          Some (Inl (AirflowException (''Run failed with status: '' @ s)),
                w3 @ [status_line E job_id s])"
    using run_job_after_trigger[OF a1 a2 a3 a4 a5 a6] b s ns by simp
next
  assume "run_job E self project_id job_name w = Some (Inr job', w')"
  then show "job_status_name job' = Inr ''Success''"
    unfolding run_job_def Let_def
    by (auto split: prod.splits sum.splits if_splits option.splits)
qed

text \<open>A run that the service reports as Error (code 20) after one Running status.\<close>

theorem run_job_raises_on_failed_run_witness:
  "list_job_definitions failure_env demo_self (PInt 2) []
     = (Inr (PList [nightly_def, hourly_def]), [HttpGet demo_definitions_url demo_get_headers])
   \<and> py_iter (PList [nightly_def, hourly_def]) = Inr [nightly_def, hourly_def]
   \<and> filter_by_name [nightly_def, hourly_def] ''nightly'' = Inr [nightly_def]
   \<and> getitem nightly_def ''id'' = Inr (PInt 7)
   \<and> trigger_job_run failure_env demo_self (PInt 2) (PInt 7)
        [HttpGet demo_definitions_url demo_get_headers]
     = (Inr (run_payload 1), failure_worlds 0)
   \<and> failure_worlds 0 =
       [HttpGet demo_definitions_url demo_get_headers, HttpPost demo_trigger_url demo_post_headers]
   \<and> getitem (run_payload 1) ''id'' = Inr (PInt 42)
   \<and> pending_polls failure_env demo_self (PInt 2) (PInt 42) failure_worlds 1
   \<and> try_get_job_run failure_env demo_self (PInt 2) (PInt 42) 3 (failure_worlds 1)
     = (Inr (run_payload 20), failure_worlds 1 @ [HttpGet demo_run_url demo_get_headers])
   \<and> job_status_name (run_payload 20) = Inr ''Error''
   \<and> ''Error'' \<in> {''Error'', ''Cancelled''}
   \<and> run_job failure_env demo_self (PInt 2) ''nightly'' [] =
       Some (Inl (AirflowException ''Run failed with status: Error''),
             [HttpGet demo_definitions_url demo_get_headers,
              HttpPost demo_trigger_url demo_post_headers,
              HttpGet demo_run_url demo_get_headers, Print ''JOB: 42, STATUS: Running'', Sleep 30,
              HttpGet demo_run_url demo_get_headers, Print ''JOB: 42, STATUS: Error''])"
proof -
  let ?E = failure_env
  let ?w1 = "[HttpGet demo_definitions_url demo_get_headers]"
  let ?w3 = "failure_worlds 1 @ [HttpGet demo_run_url demo_get_headers]"
  let ?trace = "[HttpGet demo_definitions_url demo_get_headers,
              HttpPost demo_trigger_url demo_post_headers,
              HttpGet demo_run_url demo_get_headers, Print ''JOB: 42, STATUS: Running'', Sleep 30,
              HttpGet demo_run_url demo_get_headers, Print ''JOB: 42, STATUS: Error'']"
  have h1: "list_job_definitions ?E demo_self (PInt 2) [] = (Inr (PList [nightly_def, hourly_def]), ?w1)"
    by code_simp
  have h2: "py_iter (PList [nightly_def, hourly_def]) = Inr [nightly_def, hourly_def]"
    by simp
  have h3: "filter_by_name [nightly_def, hourly_def] ''nightly'' = Inr [nightly_def]"
    by code_simp
  have h4: "getitem nightly_def ''id'' = Inr (PInt 7)"
    by (simp add: nightly_def_def)
  have h5: "trigger_job_run ?E demo_self (PInt 2) (PInt 7) ?w1 = (Inr (run_payload 1), failure_worlds 0)"
    by code_simp
  have s0: "failure_worlds 0 =
       [HttpGet demo_definitions_url demo_get_headers, HttpPost demo_trigger_url demo_post_headers]"
    by code_simp
  have h6: "getitem (run_payload 1) ''id'' = Inr (PInt 42)"
    by (simp add: run_payload_def)
  have h7: "pending_polls ?E demo_self (PInt 2) (PInt 42) failure_worlds 1"
    by code_simp
  have h8: "try_get_job_run ?E demo_self (PInt 2) (PInt 42) 3 (failure_worlds 1)
              = (Inr (run_payload 20), ?w3)"
    by code_simp
  have h9: "job_status_name (run_payload 20) = Inr ''Error''"
    by code_simp
  have h10: "''Error'' \<in> {''Error'', ''Cancelled''}"
    by simp
  have final: "?w3 @ [status_line ?E (PInt 42) ''Error''] = ?trace"
    by code_simp
  have r: "run_job ?E demo_self (PInt 2) ''nightly'' [] =
       Some (Inl (AirflowException ''Run failed with status: Error''), ?trace)"
    using run_job_raises_on_failed_run[of ?E demo_self "PInt 2" "[]" "PList [nightly_def, hourly_def]"
            ?w1 "[nightly_def, hourly_def]" "''nightly''" nightly_def "PInt 7" "run_payload 1"
            failure_worlds "PInt 42" 1 "run_payload 20" ?w3 "''Error''"]
          h1 h2 h3 h4 h5 h6 h7 h8 h9 h10 final
    by simp
  from h1 h2 h3 h4 h5 s0 h6 h7 h8 h9 h10 r show ?thesis
    by blast
qed



end
